theory Spec2Isabelle
  imports Complex_Main "HOL-Library.Monad_Syntax"
begin

section \<open>Numbers\<close>

text \<open>
  The library runs on ExtendScript, whose numbers are IEEE doubles. This development
  reads them as real numbers: rounding and overflow are outside the model, so every
  equation below is an equation of exact arithmetic. The one place where a double
  leaves the reals is a division by zero, which yields \<open>Infinity\<close> or \<open>NaN\<close>;
  \<open>js_div\<close> makes that outcome explicit as \<open>None\<close>.
\<close>

definition js_div :: "real \<Rightarrow> real \<Rightarrow> real option" where
  "js_div x d = (if d = 0 then None else Some (x / d))"

text \<open>
  An optional numeric argument: \<open>None\<close> is an argument that was left out
  (\<open>undefined\<close>). A value is truthy when it is a number other than zero.
\<close>

definition truthy :: "real option \<Rightarrow> bool" where
  "truthy v = (case v of None \<Rightarrow> False | Some x \<Rightarrow> x \<noteq> 0)"

section \<open>Matrix2D\<close>

text \<open>
  \<open>Matrix2D.elements\<close> is an array of six numbers; \<open>el0\<close> .. \<open>el5\<close> are
  \<open>elements[0]\<close> .. \<open>elements[5]\<close>. Methods mutate the receiver in place;
  here they take the receiver last and return the updated matrix.
\<close>

record Matrix2D =
  el0 :: real
  el1 :: real
  el2 :: real
  el3 :: real
  el4 :: real
  el5 :: real

definition array :: "Matrix2D \<Rightarrow> real list" where
  "array m = [el0 m, el1 m, el2 m, el3 m, el4 m, el5 m]"

text \<open>
  \<open>set\<close> with one array argument copies the array into \<open>elements\<close>. The library
  only ever passes arrays of six numbers: the identity of \<open>reset\<close>, a copy made by
  \<open>array\<close>, or the result array of \<open>apply\<close>.
\<close>

definition set_elements :: "real list \<Rightarrow> Matrix2D" where
  "set_elements a =
     \<lparr>el0 = a ! 0, el1 = a ! 1, el2 = a ! 2, el3 = a ! 3, el4 = a ! 4, el5 = a ! 5\<rparr>"

definition reset :: "Matrix2D" where
  "reset = set_elements [1, 0, 0, 0, 1, 0]"

definition translate :: "real \<Rightarrow> real \<Rightarrow> Matrix2D \<Rightarrow> Matrix2D" where
  "translate tx ty m =
     m\<lparr>el2 := tx * el0 m + ty * el1 m + el2 m,
       el5 := tx * el3 m + ty * el4 m + el5 m\<rparr>"

text \<open>\<open>mult\<close> on an array source \<open>[x, y]\<close> with no target: a fresh two-element array.\<close>

definition mult :: "Matrix2D \<Rightarrow> real \<times> real \<Rightarrow> real \<times> real" where
  "mult m source =
     (let x = fst source; y = snd source
      in (el0 m * x + el1 m * y + el2 m, el3 m * x + el4 m * y + el5 m))"

definition determinant :: "Matrix2D \<Rightarrow> real" where
  "determinant m = el0 m * el4 m - el1 m * el3 m"

text \<open>
  \<open>invert\<close> returns the boolean the method returns and the elements it leaves in the
  receiver; \<open>None\<close> stands for elements that are no longer numbers of the model
  (the quotients by a zero determinant).
\<close>

definition invert :: "Matrix2D \<Rightarrow> bool \<times> Matrix2D option" where
  "invert m =
     (let d = determinant m
      in if \<bar>d\<bar> > - 2147483648 then
           (let old00 = el0 m; old01 = el1 m; old02 = el2 m;
                old10 = el3 m; old11 = el4 m; old12 = el5 m
            in (True,
                do {
                  n0 \<leftarrow> js_div old11 d;
                  n3 \<leftarrow> js_div (- old10) d;
                  n1 \<leftarrow> js_div (- old01) d;
                  n4 \<leftarrow> js_div old00 d;
                  n2 \<leftarrow> js_div (old01 * old12 - old11 * old02) d;
                  n5 \<leftarrow> js_div (old10 * old02 - old00 * old12) d;
                  Some \<lparr>el0 = n0, el1 = n1, el2 = n2, el3 = n3, el4 = n4, el5 = n5\<rparr>
                }))
         else (False, Some m))"

definition scale :: "real option \<Rightarrow> real option \<Rightarrow> Matrix2D \<Rightarrow> Matrix2D" where
  "scale sx sy0 m =
     (let sy = (if truthy sx \<and> \<not> truthy sy0 then sx else sy0)
      in if truthy sx \<and> truthy sy then
           m\<lparr>el0 := el0 m * the sx, el1 := el1 m * the sy,
             el3 := el3 m * the sx, el4 := el4 m * the sy\<rparr>
         else m)"

text \<open>
  \<open>apply\<close>: the two nested loops over \<open>row\<close> and \<open>col\<close>, with the running index
  \<open>e\<close> carried along with the result array.
\<close>

definition apply_step ::
  "real list \<Rightarrow> real list \<Rightarrow> nat \<Rightarrow> real list \<times> nat \<Rightarrow> nat \<Rightarrow> real list \<times> nat" where
  "apply_step this source row acc col =
     (let result = fst acc; e = snd acc
      in (result[e := result ! e + this ! (row * 3 + 0) * source ! (col + 0)
                                 + this ! (row * 3 + 1) * source ! (col + 3)],
          e + 1))"

definition apply_m :: "Matrix2D \<Rightarrow> Matrix2D \<Rightarrow> Matrix2D" where
  "apply_m m src =
     (let source = array src;
          this = array m;
          result = [0, 0, this ! 2, 0, 0, this ! 5]
      in set_elements
           (fst (foldl (\<lambda>acc row. foldl (apply_step this source row) acc [0..<3])
                   (result, 0) [0..<2])))"

definition rotate :: "real \<Rightarrow> Matrix2D \<Rightarrow> Matrix2D" where
  "rotate angle m =
     (let c = cos angle; s = sin angle;
          temp1 = el0 m; temp2 = el1 m;
          m1 = m\<lparr>el0 := c * temp1 + s * temp2\<rparr>;
          m2 = m1\<lparr>el1 := - s * temp1 + c * temp2\<rparr>;
          temp1 = el3 m2; temp2 = el4 m2;
          m3 = m2\<lparr>el3 := c * temp1 + s * temp2\<rparr>
      in m3\<lparr>el4 := - s * temp1 + c * temp2\<rparr>)"

section \<open>The current matrix and the matrix stack\<close>

text \<open>
  \<open>error(msg)\<close> prints the message and throws. One constructor per call site:
  \<^item> \<open>InvalidFirstParameter\<close>: "transform(), invalid first parameter. Use page item."
  \<^item> \<open>InvalidTransformType\<close>: "transform(), invalid transform type. Use ..."
  \<^item> \<open>MissingPushMatrix\<close>: "popMatrix(), missing a pushMatrix() to go with that popMatrix()"
  \<^item> \<open>MissingAngle\<close>: "Please provide an angle for rotation."
  \<^item> \<open>InvalidScaleFactors\<close>: "Please provide valid x and/or y factors for scaling."
  \<^item> \<open>MissingCoordinates\<close>: "Please provide x and y coordinates for translation."
  \<^item> \<open>HostError\<close>: an exception raised by the host application itself.
\<close>

datatype error =
    InvalidFirstParameter
  | InvalidTransformType
  | MissingPushMatrix
  | MissingAngle
  | InvalidScaleFactors
  | MissingCoordinates
  | HostError

text \<open>
  A call either returns a value or throws; both leave a state behind, since nothing
  is rolled back when an exception leaves a function.
\<close>

datatype ('v, 's) outcome = Returns 'v 's | Throws error 's

text \<open>
  The module variables \<open>currMatrix\<close> and \<open>matrixStack\<close>. The stack holds the
  arrays that \<open>currMatrix.array()\<close> copied; \<open>push\<close> appends at the end and
  \<open>pop\<close> removes the last entry.
\<close>

record mstate =
  currMatrix :: Matrix2D
  matrixStack :: "real list list"

definition applyMatrix :: "Matrix2D \<Rightarrow> mstate \<Rightarrow> (unit, mstate) outcome" where
  "applyMatrix matrix st = Returns () (st\<lparr>currMatrix := apply_m (currMatrix st) matrix\<rparr>)"

definition popMatrix :: "mstate \<Rightarrow> (unit, mstate) outcome" where
  "popMatrix st =
     (if length (matrixStack st) > 0 then
        Returns () (st\<lparr>currMatrix := set_elements (last (matrixStack st)),
                        matrixStack := butlast (matrixStack st)\<rparr>)
      else Throws MissingPushMatrix st)"

definition pushMatrix :: "mstate \<Rightarrow> (unit, mstate) outcome" where
  "pushMatrix st = Returns () (st\<lparr>matrixStack := matrixStack st @ [array (currMatrix st)]\<rparr>)"

text \<open>
  The public \<open>rotate\<close>, \<open>scale\<close> and \<open>translate\<close> check their arguments and
  then call the method of the same name on \<open>currMatrix\<close>. For \<open>scale\<close>, a second
  argument \<open>None\<close> is a call with one argument.
\<close>

definition pub_rotate :: "real option \<Rightarrow> mstate \<Rightarrow> (unit, mstate) outcome" where
  "pub_rotate angle st =
     (case angle of
        None \<Rightarrow> Throws MissingAngle st
      | Some a \<Rightarrow> Returns () (st\<lparr>currMatrix := rotate a (currMatrix st)\<rparr>))"

definition pub_scale :: "real option \<Rightarrow> real option \<Rightarrow> mstate \<Rightarrow> (unit, mstate) outcome" where
  "pub_scale scaleX scaleY st =
     (if scaleX = None then Throws InvalidScaleFactors st
      else Returns () (st\<lparr>currMatrix := scale scaleX scaleY (currMatrix st)\<rparr>))"

definition pub_translate :: "real option \<Rightarrow> real option \<Rightarrow> mstate \<Rightarrow> (unit, mstate) outcome" where
  "pub_translate tx ty st =
     (case (tx, ty) of
        (Some x, Some y) \<Rightarrow> Returns () (st\<lparr>currMatrix := translate x y (currMatrix st)\<rparr>)
      | _ \<Rightarrow> Throws MissingCoordinates st)"

text \<open>
  A stretch of a script that only calls the four mutators, in order. An exception ends
  the script, so the calls after it do not run.
\<close>

datatype mutation =
    Rotate "real option"
  | Scale "real option" "real option"
  | Translate "real option" "real option"
  | ApplyMatrix Matrix2D

fun mutate :: "mutation \<Rightarrow> mstate \<Rightarrow> (unit, mstate) outcome" where
  "mutate (Rotate angle) st = pub_rotate angle st"
| "mutate (Scale sx sy) st = pub_scale sx sy st"
| "mutate (Translate tx ty) st = pub_translate tx ty st"
| "mutate (ApplyMatrix m) st = applyMatrix m st"

fun mutations :: "mutation list \<Rightarrow> mstate \<Rightarrow> (unit, mstate) outcome" where
  "mutations [] st = Returns () st"
| "mutations (c # cs) st =
     (case mutate c st of
        Throws e st' \<Rightarrow> Throws e st'
      | Returns _ st' \<Rightarrow> mutations cs st')"

section \<open>The transform facade\<close>

text \<open>
  The third argument of \<open>transform\<close>: left out, a number, an array \<open>[x, y]\<close> of two
  numbers, or a string. \<open>isNumber(value)\<close> is the match on \<open>Num\<close> and
  \<open>isArray(value)\<close> the match on \<open>Arr\<close>.
\<close>

datatype jsval = Undefined | Num real | Arr real real | Str string

text \<open>
  Modelled from the spec: \<open>precision(num, dec)\<close> is called by \<open>transform\<close> but is
  not among the source files. The spec has the values it is applied to
  "precision-rounded to 12 fractional digits"; a half is rounded upwards.
\<close>

definition precision :: "real \<Rightarrow> nat \<Rightarrow> real" where
  "precision num dec = real_of_int (round (num * 10 ^ dec)) / 10 ^ dec"

datatype AnchorPoint =
    TOP_LEFT_ANCHOR | TOP_CENTER_ANCHOR | TOP_RIGHT_ANCHOR
  | LEFT_CENTER_ANCHOR | CENTER_ANCHOR | RIGHT_CENTER_ANCHOR
  | BOTTOM_LEFT_ANCHOR | BOTTOM_CENTER_ANCHOR | BOTTOM_RIGHT_ANCHOR

datatype ref_point =
    topLeft | topCenter | topRight
  | centerLeft | center | centerRight
  | bottomLeft | bottomCenter | bottomRight

fun idAnchorPoints :: "ref_point \<Rightarrow> AnchorPoint" where
  "idAnchorPoints topLeft = TOP_LEFT_ANCHOR"
| "idAnchorPoints topCenter = TOP_CENTER_ANCHOR"
| "idAnchorPoints topRight = TOP_RIGHT_ANCHOR"
| "idAnchorPoints centerLeft = LEFT_CENTER_ANCHOR"
| "idAnchorPoints center = CENTER_ANCHOR"
| "idAnchorPoints centerRight = RIGHT_CENTER_ANCHOR"
| "idAnchorPoints bottomLeft = BOTTOM_LEFT_ANCHOR"
| "idAnchorPoints bottomCenter = BOTTOM_CENTER_ANCHOR"
| "idAnchorPoints bottomRight = BOTTOM_RIGHT_ANCHOR"

datatype MeasurementUnits = POINTS | MILLIMETERS | CENTIMETERS | INCHES | PIXELS

datatype basil_unit = unit_pt | unit_mm | unit_cm | unit_inch | unit_px

fun basilUnits :: "basil_unit \<Rightarrow> MeasurementUnits" where
  "basilUnits unit_pt = POINTS"
| "basilUnits unit_mm = MILLIMETERS"
| "basilUnits unit_cm = CENTIMETERS"
| "basilUnits unit_inch = INCHES"
| "basilUnits unit_px = PIXELS"

datatype canvas_mode = PAGE | MARGIN | BLEED | FACING_PAGES | FACING_MARGINS | FACING_BLEEDS

datatype WhenScalingOptions = ADJUST_SCALING_PERCENTAGE | APPLY_TO_CONTENT

text \<open>
  The transformation matrix handed to the host: a fresh matrix from
  \<open>app.transformationMatrices.add()\<close> after one call of \<open>scaleMatrix\<close>,
  \<open>translateMatrix\<close>, \<open>rotateMatrix\<close> or \<open>shearMatrix\<close>. A scale factor is a
  quotient, so it may be \<open>None\<close> (see \<open>js_div\<close>).
\<close>

datatype tmatrix =
    ScaleMatrix "real option" "real option"
  | TranslateMatrix real real
  | RotateMatrix real
  | ShearMatrix real

text \<open>
  The host application is not part of the library. Its objects are parameters:
  \<open>'i\<close> is what is passed as first argument, with the geometry the host keeps for
  it, and \<open>'p\<close> is a page.
  \<^item> \<open>isPageItem\<close>: the argument is not null and has its own \<open>geometricBounds\<close>;
  \<^item> \<open>geometricBounds\<close>: the four numbers \<open>bounds[0]\<close> .. \<open>bounds[3]\<close>;
  \<^item> \<open>item_transform\<close>: \<open>pItem.transform(PASTEBOARD_COORDINATES, aPoint, tm)\<close>, with
    \<open>None\<close> when the host raises an exception;
  \<^item> \<open>item_resolve\<close>: \<open>pItem.resolve([aPoint, ...], SPREAD_COORDINATES)[0]\<close>;
  \<^item> \<open>page_resolve\<close>: the same for the top left anchor of a page;
  \<^item> \<open>firstItem\<close>: \<open>page.parent.pages.firstItem()\<close>;
  \<^item> \<open>unit_as\<close>: \<open>UnitValue(v, from).as(to)\<close>.
\<close>

record ('i, 'p) host =
  isPageItem :: "'i \<Rightarrow> bool"
  geometricBounds :: "'i \<Rightarrow> real \<times> real \<times> real \<times> real"
  rotationAngle :: "'i \<Rightarrow> real"
  shearAngle :: "'i \<Rightarrow> real"
  horizontalScale :: "'i \<Rightarrow> real"
  verticalScale :: "'i \<Rightarrow> real"
  item_transform :: "AnchorPoint \<Rightarrow> tmatrix \<Rightarrow> 'i \<Rightarrow> 'i option"
  item_resolve :: "AnchorPoint \<Rightarrow> 'i \<Rightarrow> real \<times> real"
  page_resolve :: "'p \<Rightarrow> real \<times> real"
  firstItem :: "'p \<Rightarrow> 'p"
  unit_as :: "MeasurementUnits \<Rightarrow> real \<Rightarrow> MeasurementUnits \<Rightarrow> real"

text \<open>The module variables that \<open>transform\<close> reads.\<close>

record 'p env =
  currRefPoint :: ref_point
  currUnits :: basil_unit
  currPage :: 'p
  currCanvasMode :: canvas_mode
  currOriginX :: real
  currOriginY :: real

text \<open>
  What \<open>transform\<close> changes: the two fields of \<open>app.transformPreferences\<close>, and
  the page item.
\<close>

record 'i tstate =
  adjustStrokeWeightWhenScaling :: bool
  whenScaling :: WhenScalingOptions
  pItem :: 'i

text \<open>The two assignments at the start of \<open>transform\<close>.\<close>

definition toggle :: "'i tstate \<Rightarrow> 'i tstate" where
  "toggle st =
     st\<lparr>adjustStrokeWeightWhenScaling := False, whenScaling := ADJUST_SCALING_PERCENTAGE\<rparr>"

text \<open>
  The end of \<open>transform\<close>: the two assignments, then \<open>result\<close>, or \<open>value\<close> when
  \<open>result\<close> is still \<open>null\<close>.
\<close>

definition finish :: "jsval option \<Rightarrow> jsval \<Rightarrow> 'i tstate \<Rightarrow> (jsval, 'i tstate) outcome" where
  "finish result value st =
     Returns (case result of None \<Rightarrow> value | Some r \<Rightarrow> r)
       (st\<lparr>adjustStrokeWeightWhenScaling := True, whenScaling := APPLY_TO_CONTENT\<rparr>)"

definition host_transform ::
  "('i, 'p) host \<Rightarrow> AnchorPoint \<Rightarrow> tmatrix \<Rightarrow> 'i tstate \<Rightarrow> (unit, 'i tstate) outcome" where
  "host_transform h aPoint tm st =
     (case item_transform h aPoint tm (pItem st) of
        None \<Rightarrow> Throws HostError st
      | Some it \<Rightarrow> Returns () (st\<lparr>pItem := it\<rparr>))"

text \<open>
  \<open>anchorPosOnPage\<close>: the first lines of the branch for \<open>position\<close>, \<open>x\<close> and
  \<open>y\<close>, up to the conversion to the user's units.
\<close>

definition anchorPosOnPage :: "('i, 'p) host \<Rightarrow> 'p env \<Rightarrow> 'i \<Rightarrow> real \<times> real" where
  "anchorPosOnPage h env it =
     (let aPoint = idAnchorPoints (currRefPoint env);
          unitEnum = basilUnits (currUnits env);
          refPage = (if currCanvasMode env = PAGE \<or> currCanvasMode env = MARGIN
                        \<or> currCanvasMode env = BLEED
                     then currPage env else firstItem h (currPage env));
          topLeft = page_resolve h refPage;
          topLeft0 = fst topLeft + unit_as h unitEnum (currOriginX env) POINTS;
          topLeft1 = snd topLeft + unit_as h unitEnum (currOriginY env) POINTS;
          anchorPosOnSpread = item_resolve h aPoint it;
          anchorPosOnPagePt = (fst anchorPosOnSpread - topLeft0, snd anchorPosOnSpread - topLeft1)
      in (unit_as h POINTS (fst anchorPosOnPagePt) unitEnum,
          unit_as h POINTS (snd anchorPosOnPagePt) unitEnum))"

function transform ::
  "('i, 'p) host \<Rightarrow> 'p env \<Rightarrow> string \<Rightarrow> jsval \<Rightarrow> 'i tstate \<Rightarrow> (jsval, 'i tstate) outcome" where
  "transform h env type value st0 =
     (if \<not> isPageItem h (pItem st0) then Throws InvalidFirstParameter st0
      else
        let st = toggle st0;
            aPoint = idAnchorPoints (currRefPoint env);
            unitEnum = basilUnits (currUnits env);
            bounds = geometricBounds h (pItem st);
            w = \<bar>snd (snd (snd bounds)) - fst (snd bounds)\<bar>;
            ht = \<bar>fst (snd (snd bounds)) - fst bounds\<bar>
        in
        if type = ''width'' then
          (case value of
             Num v \<Rightarrow>
               (case host_transform h aPoint (ScaleMatrix (js_div v w) (Some 1)) st of
                  Throws e s \<Rightarrow> Throws e s
                | Returns _ s \<Rightarrow> finish None value s)
           | _ \<Rightarrow> finish (Some (Num (precision w 12))) value st)
        else if type = ''height'' then
          (case value of
             Num v \<Rightarrow>
               (case host_transform h aPoint (ScaleMatrix (Some 1) (js_div v ht)) st of
                  Throws e s \<Rightarrow> Throws e s
                | Returns _ s \<Rightarrow> finish None value s)
           | _ \<Rightarrow> finish (Some (Num (precision ht 12))) value st)
        else if type = ''size'' then
          (case value of
             Arr v0 v1 \<Rightarrow>
               (case host_transform h aPoint (ScaleMatrix (js_div v0 w) (js_div v1 ht)) st of
                  Throws e s \<Rightarrow> Throws e s
                | Returns _ s \<Rightarrow> finish None value s)
           | _ \<Rightarrow> finish (Some (Arr (precision w 12) (precision ht 12))) value st)
        else if type = ''translate'' \<or> type = ''translation'' then
          (case (case value of
                   Arr v0 v1 \<Rightarrow>
                     host_transform h aPoint
                       (TranslateMatrix (unit_as h unitEnum v0 POINTS)
                          (unit_as h unitEnum v1 POINTS)) st
                 | _ \<Rightarrow> Returns () st) of
             Throws e s \<Rightarrow> Throws e s
           | Returns _ s \<Rightarrow>
               (case transform h env ''position'' Undefined s of
                  Throws e s' \<Rightarrow> Throws e s'
                | Returns r s' \<Rightarrow> finish (Some r) value s'))
        else if type = ''rotate'' \<or> type = ''rotation'' then
          (case (case value of
                   Num v \<Rightarrow>
                     host_transform h aPoint
                       (RotateMatrix (- rotationAngle h (pItem st) - v)) st
                 | _ \<Rightarrow> Returns () st) of
             Throws e s \<Rightarrow> Throws e s
           | Returns _ s \<Rightarrow> finish (Some (Num (- rotationAngle h (pItem s)))) value s)
        else if type = ''scale'' \<or> type = ''scaling'' then
          (case (case value of
                   Num v \<Rightarrow> host_transform h aPoint (ScaleMatrix (Some v) (Some v)) st
                 | Arr v0 v1 \<Rightarrow> host_transform h aPoint (ScaleMatrix (Some v0) (Some v1)) st
                 | _ \<Rightarrow> Returns () st) of
             Throws e s \<Rightarrow> Throws e s
           | Returns _ s \<Rightarrow>
               finish (Some (Arr (horizontalScale h (pItem s) / 100)
                                 (verticalScale h (pItem s) / 100))) value s)
        else if type = ''shear'' \<or> type = ''shearing'' then
          (case (case value of
                   Num v \<Rightarrow>
                     host_transform h aPoint
                       (ShearMatrix (- shearAngle h (pItem st) - v)) st
                 | _ \<Rightarrow> Returns () st) of
             Throws e s \<Rightarrow> Throws e s
           | Returns _ s \<Rightarrow> finish (Some (Num (- shearAngle h (pItem s)))) value s)
        else if type = ''position'' \<or> type = ''x'' \<or> type = ''y'' then
          (let pos = anchorPosOnPage h env (pItem st)
           in if type = ''x'' then
                (case value of
                   Num v \<Rightarrow>
                     (case transform h env ''position'' (Arr v (snd pos)) st of
                        Throws e s \<Rightarrow> Throws e s
                      | Returns _ s \<Rightarrow> Returns value s)
                 | _ \<Rightarrow> finish (Some (Num (precision (fst pos) 12))) value st)
              else if type = ''y'' then
                (case value of
                   Num v \<Rightarrow>
                     (case transform h env ''position'' (Arr (fst pos) v) st of
                        Throws e s \<Rightarrow> Throws e s
                      | Returns _ s \<Rightarrow> Returns value s)
                 | _ \<Rightarrow> finish (Some (Num (precision (snd pos) 12))) value st)
              else
                (case value of
                   Arr v0 v1 \<Rightarrow>
                     (case transform h env ''translate'' (Arr (v0 - fst pos) (v1 - snd pos)) st of
                        Throws e s \<Rightarrow> Throws e s
                      | Returns _ s \<Rightarrow> Returns value s)
                 | _ \<Rightarrow>
                     finish (Some (Arr (precision (fst pos) 12) (precision (snd pos) 12)))
                       value st))
        else Throws InvalidTransformType st)"
  by pat_completeness auto

text \<open>
  A call for \<open>x\<close> or \<open>y\<close> with a number calls \<open>position\<close> with an array, that one
  calls \<open>translate\<close>, and \<open>translate\<close> calls \<open>position\<close> with no value: no call
  chain is longer than four.
\<close>

definition call_rank :: "string \<Rightarrow> jsval \<Rightarrow> nat" where
  "call_rank type value =
     (if type = ''x'' \<or> type = ''y'' then 3
      else if type = ''position'' then (case value of Arr _ _ \<Rightarrow> 2 | _ \<Rightarrow> 0)
      else if type = ''translate'' \<or> type = ''translation'' then 1
      else 0)"

termination transform
  by (relation "measure (\<lambda>(h, env, type, value, st). call_rank type value)")
     (auto simp add: call_rank_def)

declare transform.simps [simp del]

text \<open>
  The state of the preferences at the end of a call: as the last two assignments leave
  them when the call returns, as the first two leave them when it throws after them,
  and untouched when it throws before them.
\<close>

definition exits_ok :: "('i, 'p) host \<Rightarrow> 'i tstate \<Rightarrow> (jsval, 'i tstate) outcome \<Rightarrow> bool" where
  "exits_ok h st0 out =
     (case out of
        Returns r s \<Rightarrow> adjustStrokeWeightWhenScaling s \<and> whenScaling s = APPLY_TO_CONTENT
      | Throws e s \<Rightarrow>
          if isPageItem h (pItem st0)
          then \<not> adjustStrokeWeightWhenScaling s \<and> whenScaling s = ADJUST_SCALING_PERCENTAGE
          else e = InvalidFirstParameter \<and> s = st0)"

section \<open>A host to run the facade on\<close>

text \<open>
  A page item of this host is an unrotated rectangle that records the angles and the
  scale percentages it was given. There is one page, and its top left corner is the
  origin of the spread. Scaling keeps the anchor point where it is.
\<close>

record rect_item =
  r_is_item :: bool
  r_left :: real
  r_top :: real
  r_width :: real
  r_height :: real
  r_rotation :: real
  r_shear :: real
  r_hscale :: real
  r_vscale :: real

fun anchor_fraction :: "AnchorPoint \<Rightarrow> real \<times> real" where
  "anchor_fraction TOP_LEFT_ANCHOR = (0, 0)"
| "anchor_fraction TOP_CENTER_ANCHOR = (1 / 2, 0)"
| "anchor_fraction TOP_RIGHT_ANCHOR = (1, 0)"
| "anchor_fraction LEFT_CENTER_ANCHOR = (0, 1 / 2)"
| "anchor_fraction CENTER_ANCHOR = (1 / 2, 1 / 2)"
| "anchor_fraction RIGHT_CENTER_ANCHOR = (1, 1 / 2)"
| "anchor_fraction BOTTOM_LEFT_ANCHOR = (0, 1)"
| "anchor_fraction BOTTOM_CENTER_ANCHOR = (1 / 2, 1)"
| "anchor_fraction BOTTOM_RIGHT_ANCHOR = (1, 1)"

definition rect_resolve :: "AnchorPoint \<Rightarrow> rect_item \<Rightarrow> real \<times> real" where
  "rect_resolve a it =
     (r_left it + fst (anchor_fraction a) * r_width it,
      r_top it + snd (anchor_fraction a) * r_height it)"

fun rect_transform :: "AnchorPoint \<Rightarrow> tmatrix \<Rightarrow> rect_item \<Rightarrow> rect_item option" where
  "rect_transform a (ScaleMatrix (Some sx) (Some sy)) it =
     Some (it\<lparr>r_left := fst (rect_resolve a it) - fst (anchor_fraction a) * (r_width it * sx),
               r_top := snd (rect_resolve a it) - snd (anchor_fraction a) * (r_height it * sy),
               r_width := r_width it * sx,
               r_height := r_height it * sy,
               r_hscale := r_hscale it * sx,
               r_vscale := r_vscale it * sy\<rparr>)"
| "rect_transform a (ScaleMatrix _ _) it = None"
| "rect_transform a (TranslateMatrix dx dy) it =
     Some (it\<lparr>r_left := r_left it + dx, r_top := r_top it + dy\<rparr>)"
| "rect_transform a (RotateMatrix r) it = Some (it\<lparr>r_rotation := r_rotation it + r\<rparr>)"
| "rect_transform a (ShearMatrix r) it = Some (it\<lparr>r_shear := r_shear it + r\<rparr>)"

fun points_per_unit :: "MeasurementUnits \<Rightarrow> real" where
  "points_per_unit POINTS = 1"
| "points_per_unit MILLIMETERS = 360 / 127"
| "points_per_unit CENTIMETERS = 3600 / 127"
| "points_per_unit INCHES = 72"
| "points_per_unit PIXELS = 1"

definition rect_host :: "(rect_item, unit) host" where
  "rect_host =
     \<lparr>isPageItem = r_is_item,
      geometricBounds = (\<lambda>it. (r_top it, r_left it, r_top it + r_height it, r_left it + r_width it)),
      rotationAngle = r_rotation,
      shearAngle = r_shear,
      horizontalScale = r_hscale,
      verticalScale = r_vscale,
      item_transform = rect_transform,
      item_resolve = rect_resolve,
      page_resolve = (\<lambda>p. (0, 0)),
      firstItem = (\<lambda>p. p),
      unit_as = (\<lambda>from v to. v * points_per_unit from / points_per_unit to)\<rparr>"

definition rect_env :: "unit env" where
  "rect_env =
     \<lparr>currRefPoint = topLeft, currUnits = unit_pt, currPage = (),
      currCanvasMode = PAGE, currOriginX = 0, currOriginY = 0\<rparr>"

text \<open>
  \<open>rect 10 20 100 100\<close> is a rectangle of 100 by 100 with its top left corner at
  \<open>(10, 20)\<close>, as \<open>rect(10, 20, 100, 100)\<close> draws it.
\<close>

definition rect :: "real \<Rightarrow> real \<Rightarrow> real \<Rightarrow> real \<Rightarrow> rect_item" where
  "rect x y w ht =
     \<lparr>r_is_item = True, r_left = x, r_top = y, r_width = w, r_height = ht,
      r_rotation = 0, r_shear = 0, r_hscale = 100, r_vscale = 100\<rparr>"

section \<open>Properties of Matrix2D\<close>

lemma apply_m_elements:
  "apply_m m s =
     \<lparr>el0 = el0 m * el0 s + el1 m * el3 s,
      el1 = el0 m * el1 s + el1 m * el4 s,
      el2 = el2 m + el0 m * el2 s + el1 m * el5 s,
      el3 = el3 m * el0 s + el4 m * el3 s,
      el4 = el3 m * el1 s + el4 m * el4 s,
      el5 = el5 m + el3 m * el2 s + el4 m * el5 s\<rparr>"
  by (simp add: apply_m_def apply_step_def array_def set_elements_def Let_def
      upt_rec numeral_2_eq_2 numeral_3_eq_3)

lemma set_elements_array: "set_elements (array m) = m"
  by (simp add: set_elements_def array_def)

text \<open>
  C1. \<open>M.apply(S)\<close> leaves in \<open>M\<close> the matrix that maps a point as \<open>S\<close> first and
  the old \<open>M\<close> second: \<open>R.mult(p) = M.mult(S.mult(p))\<close>.
\<close>

theorem apply_mult_compose: "mult (apply_m m s) p = mult m (mult s p)"
  by (simp add: apply_m_elements mult_def Let_def algebra_simps)

text \<open>
  C7, as the code has it. \<open>M.rotate(\<theta>)\<close> is \<open>M.apply\<close> of the matrix with the
  coefficients \<open>[cos \<theta>, - sin \<theta>, 0, sin \<theta>, cos \<theta>, 0]\<close>.
\<close>

theorem rotate_is_apply:
  "rotate \<theta> m =
     apply_m m \<lparr>el0 = cos \<theta>, el1 = - sin \<theta>, el2 = 0, el3 = sin \<theta>, el4 = cos \<theta>, el5 = 0\<rparr>"
  by (cases m) (simp add: rotate_def apply_m_elements Let_def algebra_simps)

text \<open>
  C7, as the claim words it, fails: on the identity matrix a quarter turn differs from
  \<open>apply\<close> of \<open>[cos \<theta>, sin \<theta>, 0, - sin \<theta>, cos \<theta>, 0]\<close>.
\<close>

theorem rotate_claimed_coefficients_counterexample:
  "rotate (pi / 2) reset \<noteq>
     apply_m reset \<lparr>el0 = cos (pi / 2), el1 = sin (pi / 2), el2 = 0,
                    el3 = - sin (pi / 2), el4 = cos (pi / 2), el5 = 0\<rparr>"
  by (simp add: rotate_def apply_m_elements reset_def set_elements_def Let_def)

text \<open>
  C9. Rotating by \<open>\<theta>1\<close> and then by \<open>\<theta>2\<close> is rotating by \<open>\<theta>1 + \<theta>2\<close>.
\<close>

theorem rotate_rotate_add: "rotate \<theta>2 (rotate \<theta>1 m) = rotate (\<theta>1 + \<theta>2) m"
  by (cases m) (simp add: rotate_def Let_def sin_add cos_add algebra_simps)

text \<open>
  C10. \<open>M.scale(sx, sy)\<close> with a horizontal factor that is zero or missing leaves
  \<open>M\<close> as it was, whatever \<open>sy\<close> is.
\<close>

theorem scale_falsy_sx_noop: "\<not> truthy sx \<Longrightarrow> scale sx sy m = m"
  by (simp add: scale_def)

theorem scale_falsy_sx_noop_witness:
  "\<not> truthy (Some 0) \<and> scale (Some 0) None reset = reset
     \<and> scale (Some 0) (Some 7) reset = reset"
  using scale_falsy_sx_noop [of "Some 0" None reset]
    scale_falsy_sx_noop [of "Some 0" "Some 7" reset]
  by (simp add: truthy_def)

lemma invert_returns_true: "fst (invert m)"
proof -
  have "\<bar>determinant m\<bar> > - 2147483648"
    by (rule less_le_trans [of _ 0]) simp_all
  then show ?thesis
    by (simp add: invert_def Let_def)
qed

text \<open>
  C2, at a singular matrix. With the elements \<open>[0, 0, 0, 0, 1, 0]\<close> the determinant
  is zero, and \<open>invert\<close> still takes the branch that divides and returns \<open>true\<close>.
\<close>

theorem invert_singular_returns_true:
  "determinant \<lparr>el0 = 0, el1 = 0, el2 = 0, el3 = 0, el4 = 1, el5 = 0\<rparr> = 0
     \<and> invert \<lparr>el0 = 0, el1 = 0, el2 = 0, el3 = 0, el4 = 1, el5 = 0\<rparr> = (True, None)"
  by (simp add: invert_def determinant_def js_div_def Let_def)

lemma invert_nonsingular:
  assumes "determinant m \<noteq> 0"
  shows "invert m =
     (True, Some \<lparr>el0 = el4 m / determinant m,
                  el1 = - el1 m / determinant m,
                  el2 = (el1 m * el5 m - el4 m * el2 m) / determinant m,
                  el3 = - el3 m / determinant m,
                  el4 = el0 m / determinant m,
                  el5 = (el3 m * el2 m - el0 m * el5 m) / determinant m\<rparr>)"
proof -
  have "\<bar>determinant m\<bar> > - 2147483648"
    by (rule less_le_trans [of _ 0]) simp_all
  with assms show ?thesis
    by (simp add: invert_def js_div_def Let_def)
qed

text \<open>
  C8. When the determinant is not zero, \<open>invert\<close> returns \<open>true\<close> and leaves a
  matrix whose composition with the original is the identity \<open>[1, 0, 0, 0, 1, 0]\<close>.
\<close>

theorem apply_invert_identity:
  "determinant m \<noteq> 0 \<Longrightarrow> \<exists>mi. invert m = (True, Some mi) \<and> apply_m m mi = reset"
proof -
  assume nz: "determinant m \<noteq> 0"
  define d where "d = determinant m"
  have d: "d = el0 m * el4 m - el1 m * el3 m" and dnz: "d \<noteq> 0"
    using nz by (simp_all add: d_def determinant_def)
  let ?mi = "\<lparr>el0 = el4 m / d, el1 = - el1 m / d,
              el2 = (el1 m * el5 m - el4 m * el2 m) / d,
              el3 = - el3 m / d, el4 = el0 m / d,
              el5 = (el3 m * el2 m - el0 m * el5 m) / d\<rparr>"
  have inv: "invert m = (True, Some ?mi)"
    using invert_nonsingular [OF nz] by (simp add: d_def)
  have dd: "(el0 m * el4 m - el1 m * el3 m) / d = 1"
    using dnz d by simp
  have c0: "el0 m * (el4 m / d) + el1 m * (- el3 m / d) = 1"
    using dd by (simp add: diff_divide_distrib)
  have c1: "el0 m * (- el1 m / d) + el1 m * (el0 m / d) = 0"
    using dnz by (simp add: field_simps)
  have c2: "el2 m + el0 m * ((el1 m * el5 m - el4 m * el2 m) / d)
              + el1 m * ((el3 m * el2 m - el0 m * el5 m) / d) = 0"
  proof -
    have "el2 m * d + el0 m * (el1 m * el5 m - el4 m * el2 m)
            + el1 m * (el3 m * el2 m - el0 m * el5 m) = 0"
      by (simp add: d algebra_simps)
    then have "(el2 m * d + el0 m * (el1 m * el5 m - el4 m * el2 m)
            + el1 m * (el3 m * el2 m - el0 m * el5 m)) / d = 0"
      by simp
    then show ?thesis using dnz by (simp add: add_divide_distrib)
  qed
  have c3: "el3 m * (el4 m / d) + el4 m * (- el3 m / d) = 0"
    using dnz by (simp add: field_simps)
  have c4: "el3 m * (- el1 m / d) + el4 m * (el0 m / d) = 1"
    using dd by (simp add: diff_divide_distrib mult.commute)
  have c5: "el5 m + el3 m * ((el1 m * el5 m - el4 m * el2 m) / d)
              + el4 m * ((el3 m * el2 m - el0 m * el5 m) / d) = 0"
  proof -
    have "el5 m * d + el3 m * (el1 m * el5 m - el4 m * el2 m)
            + el4 m * (el3 m * el2 m - el0 m * el5 m) = 0"
      by (simp add: d algebra_simps)
    then have "(el5 m * d + el3 m * (el1 m * el5 m - el4 m * el2 m)
            + el4 m * (el3 m * el2 m - el0 m * el5 m)) / d = 0"
      by simp
    then show ?thesis using dnz by (simp add: add_divide_distrib)
  qed
  have "apply_m m ?mi = reset"
    unfolding apply_m_elements reset_def set_elements_def
    using c0 c1 c2 c3 c4 c5 by simp
  with inv show ?thesis by blast
qed

theorem apply_invert_identity_witness:
  "determinant \<lparr>el0 = 1, el1 = 2, el2 = 3, el3 = 4, el4 = 5, el5 = 6\<rparr> \<noteq> 0
     \<and> (\<exists>mi. invert \<lparr>el0 = 1, el1 = 2, el2 = 3, el3 = 4, el4 = 5, el5 = 6\<rparr> = (True, Some mi)
             \<and> apply_m \<lparr>el0 = 1, el1 = 2, el2 = 3, el3 = 4, el4 = 5, el5 = 6\<rparr> mi = reset)"
proof -
  have d: "determinant \<lparr>el0 = 1, el1 = 2, el2 = 3, el3 = 4, el4 = 5, el5 = 6\<rparr> \<noteq> 0"
    by (simp add: determinant_def)
  from apply_invert_identity [OF d] d show ?thesis by blast
qed

section \<open>Properties of the matrix stack\<close>

lemma mutate_stack:
  "mutate c st = Returns u st' \<Longrightarrow> matrixStack st' = matrixStack st"
  by (cases c)
     (auto simp add: pub_rotate_def pub_scale_def pub_translate_def applyMatrix_def
        split: option.splits if_splits)

lemma mutations_stack:
  "mutations cs st = Returns u st' \<Longrightarrow> matrixStack st' = matrixStack st"
proof (induction cs arbitrary: st)
  case Nil
  then show ?case by simp
next
  case (Cons c cs)
  then obtain st1 where one: "mutate c st = Returns () st1"
    and rest: "mutations cs st1 = Returns u st'"
    by (auto split: outcome.splits)
  from Cons.IH [OF rest] mutate_stack [OF one] show ?case by simp
qed

text \<open>
  C5. After \<open>pushMatrix()\<close>, any sequence of \<open>rotate\<close>, \<open>scale\<close>,
  \<open>translate\<close> and \<open>applyMatrix\<close> calls that runs to its end, and
  \<open>popMatrix()\<close>, the current matrix has the six values it had at the push, and
  the stack is the one from before the push.
\<close>

theorem push_mutations_pop_restores:
  assumes "pushMatrix st = Returns () st1"
    and "mutations cs st1 = Returns () st2"
  shows "popMatrix st2 = Returns () st"
proof -
  have "matrixStack st2 = matrixStack st @ [array (currMatrix st)]"
    using assms mutations_stack [of cs st1 "()" st2] by (auto simp add: pushMatrix_def)
  then show ?thesis
    by (simp add: popMatrix_def set_elements_array)
qed

theorem push_mutations_pop_restores_witness:
  "pushMatrix \<lparr>currMatrix = reset, matrixStack = []\<rparr>
     = Returns () \<lparr>currMatrix = reset, matrixStack = [array reset]\<rparr>
   \<and> mutations [Rotate (Some (pi / 2)), Scale (Some 2) None, Translate (Some 3) (Some 4),
         ApplyMatrix \<lparr>el0 = 1, el1 = 2, el2 = 3, el3 = 4, el4 = 5, el5 = 6\<rparr>]
         \<lparr>currMatrix = reset, matrixStack = [array reset]\<rparr>
     = Returns ()
         \<lparr>currMatrix =
            apply_m (translate 3 4 (scale (Some 2) None (rotate (pi / 2) reset)))
              \<lparr>el0 = 1, el1 = 2, el2 = 3, el3 = 4, el4 = 5, el5 = 6\<rparr>,
          matrixStack = [array reset]\<rparr>
   \<and> popMatrix
         \<lparr>currMatrix =
            apply_m (translate 3 4 (scale (Some 2) None (rotate (pi / 2) reset)))
              \<lparr>el0 = 1, el1 = 2, el2 = 3, el3 = 4, el4 = 5, el5 = 6\<rparr>,
          matrixStack = [array reset]\<rparr>
     = Returns () \<lparr>currMatrix = reset, matrixStack = []\<rparr>"
proof -
  have p: "pushMatrix \<lparr>currMatrix = reset, matrixStack = []\<rparr>
     = Returns () \<lparr>currMatrix = reset, matrixStack = [array reset]\<rparr>"
    by (simp add: pushMatrix_def)
  have m: "mutations [Rotate (Some (pi / 2)), Scale (Some 2) None, Translate (Some 3) (Some 4),
         ApplyMatrix \<lparr>el0 = 1, el1 = 2, el2 = 3, el3 = 4, el4 = 5, el5 = 6\<rparr>]
         \<lparr>currMatrix = reset, matrixStack = [array reset]\<rparr>
     = Returns ()
         \<lparr>currMatrix =
            apply_m (translate 3 4 (scale (Some 2) None (rotate (pi / 2) reset)))
              \<lparr>el0 = 1, el1 = 2, el2 = 3, el3 = 4, el4 = 5, el5 = 6\<rparr>,
          matrixStack = [array reset]\<rparr>"
    by (simp add: pub_rotate_def pub_scale_def pub_translate_def applyMatrix_def)
  from push_mutations_pop_restores [OF p m] p m show ?thesis by simp
qed

text \<open>
  C6. \<open>popMatrix()\<close> on an empty stack throws the error of \<open>popMatrix\<close> and
  leaves the current matrix, and the stack, as they were.
\<close>

theorem popMatrix_empty_throws:
  "matrixStack st = [] \<Longrightarrow> popMatrix st = Throws MissingPushMatrix st"
  by (simp add: popMatrix_def)

theorem popMatrix_empty_throws_witness:
  "matrixStack \<lparr>currMatrix = reset, matrixStack = []\<rparr> = []
     \<and> popMatrix \<lparr>currMatrix = reset, matrixStack = []\<rparr>
         = Throws MissingPushMatrix \<lparr>currMatrix = reset, matrixStack = []\<rparr>"
  using popMatrix_empty_throws [of "\<lparr>currMatrix = reset, matrixStack = []\<rparr>"]
  by simp

section \<open>Properties of the transform facade\<close>

lemma host_transform_prefs:
  "host_transform h a tm st = Returns u s \<Longrightarrow>
     adjustStrokeWeightWhenScaling s = adjustStrokeWeightWhenScaling st
       \<and> whenScaling s = whenScaling st"
  "host_transform h a tm st = Throws e s \<Longrightarrow> s = st \<and> e = HostError"
  by (auto simp add: host_transform_def split: option.splits)

lemma exits_ok_Returns:
  "exits_ok h st0 out \<Longrightarrow> out = Returns r s \<Longrightarrow>
     adjustStrokeWeightWhenScaling s \<and> whenScaling s = APPLY_TO_CONTENT"
  by (simp add: exits_ok_def)

lemma exits_ok_Throws:
  "exits_ok h st0 out \<Longrightarrow> out = Throws e s \<Longrightarrow>
     \<not> adjustStrokeWeightWhenScaling st0 \<Longrightarrow> whenScaling st0 = ADJUST_SCALING_PERCENTAGE \<Longrightarrow>
     \<not> adjustStrokeWeightWhenScaling s \<and> whenScaling s = ADJUST_SCALING_PERCENTAGE"
  by (auto simp add: exits_ok_def split: if_splits)

lemma exits_ok_width: "exits_ok h st0 (transform h env ''width'' val st0)"
  by (subst transform.simps)
     (auto dest!: host_transform_prefs
        simp add: exits_ok_def Let_def finish_def toggle_def
        split: jsval.splits outcome.splits)

lemma exits_ok_height: "exits_ok h st0 (transform h env ''height'' val st0)"
  by (subst transform.simps)
     (auto dest!: host_transform_prefs
        simp add: exits_ok_def Let_def finish_def toggle_def
        split: jsval.splits outcome.splits)

lemma exits_ok_size: "exits_ok h st0 (transform h env ''size'' val st0)"
  by (subst transform.simps)
     (auto dest!: host_transform_prefs
        simp add: exits_ok_def Let_def finish_def toggle_def
        split: jsval.splits outcome.splits)

lemma exits_ok_rotate:
  "type = ''rotate'' \<or> type = ''rotation'' \<Longrightarrow> exits_ok h st0 (transform h env type val st0)"
  by (elim disjE; clarify; subst transform.simps)
     (auto dest!: host_transform_prefs
        simp add: exits_ok_def Let_def finish_def toggle_def
        split: jsval.splits outcome.splits)

lemma exits_ok_scale:
  "type = ''scale'' \<or> type = ''scaling'' \<Longrightarrow> exits_ok h st0 (transform h env type val st0)"
  by (elim disjE; clarify; subst transform.simps)
     (auto dest!: host_transform_prefs
        simp add: exits_ok_def Let_def finish_def toggle_def
        split: jsval.splits outcome.splits)

lemma exits_ok_shear:
  "type = ''shear'' \<or> type = ''shearing'' \<Longrightarrow> exits_ok h st0 (transform h env type val st0)"
  by (elim disjE; clarify; subst transform.simps)
     (auto dest!: host_transform_prefs
        simp add: exits_ok_def Let_def finish_def toggle_def
        split: jsval.splits outcome.splits)

lemma exits_ok_position_read:
  "exits_ok h st0 (transform h env ''position'' Undefined st0)"
  by (subst transform.simps)
     (simp add: exits_ok_def Let_def finish_def toggle_def)

lemma exits_ok_translate:
  assumes "type = ''translate'' \<or> type = ''translation''"
  shows "exits_ok h st0 (transform h env type val st0)"
proof -
  note inner = exits_ok_position_read [of h _ env]
  show ?thesis
    using assms
    by (elim disjE; clarify; subst transform.simps)
       (auto dest!: host_transform_prefs
          dest: exits_ok_Returns [OF inner] exits_ok_Throws [OF inner]
          simp add: exits_ok_def Let_def finish_def toggle_def
          split: jsval.splits outcome.splits)
qed

lemma exits_ok_position: "exits_ok h st0 (transform h env ''position'' val st0)"
proof -
  note inner = exits_ok_translate [of "''translate''" h _ env, simplified]
  show ?thesis
    by (subst transform.simps)
       (auto dest: exits_ok_Returns [OF inner] exits_ok_Throws [OF inner]
          simp add: exits_ok_def Let_def finish_def toggle_def
          split: jsval.splits outcome.splits)
qed

lemma exits_ok_xy:
  assumes "type = ''x'' \<or> type = ''y''"
  shows "exits_ok h st0 (transform h env type val st0)"
proof -
  note inner = exits_ok_position [of h _ env]
  show ?thesis
    using assms
    by (elim disjE; clarify; subst transform.simps)
       (auto dest: exits_ok_Returns [OF inner] exits_ok_Throws [OF inner]
          simp add: exits_ok_def Let_def finish_def toggle_def
          split: jsval.splits outcome.splits)
qed

lemma exits_ok_other:
  assumes "type \<noteq> ''width''" "type \<noteq> ''height''" "type \<noteq> ''size''"
    "type \<noteq> ''translate''" "type \<noteq> ''translation''"
    "type \<noteq> ''rotate''" "type \<noteq> ''rotation''"
    "type \<noteq> ''scale''" "type \<noteq> ''scaling''"
    "type \<noteq> ''shear''" "type \<noteq> ''shearing''"
    "type \<noteq> ''position''" "type \<noteq> ''x''" "type \<noteq> ''y''"
  shows "transform h env type val st0 =
     (if isPageItem h (pItem st0) then Throws InvalidTransformType (toggle st0)
      else Throws InvalidFirstParameter st0)"
  using assms
  by (subst transform.simps) (simp add: Let_def)

lemma transform_exits_ok: "exits_ok h st0 (transform h env type val st0)"
proof -
  consider "type = ''width''" | "type = ''height''" | "type = ''size''"
    | "type = ''translate'' \<or> type = ''translation''"
    | "type = ''rotate'' \<or> type = ''rotation''"
    | "type = ''scale'' \<or> type = ''scaling''"
    | "type = ''shear'' \<or> type = ''shearing''"
    | "type = ''position''" | "type = ''x'' \<or> type = ''y''"
    | "type \<noteq> ''width''" "type \<noteq> ''height''" "type \<noteq> ''size''"
      "type \<noteq> ''translate''" "type \<noteq> ''translation''"
      "type \<noteq> ''rotate''" "type \<noteq> ''rotation''"
      "type \<noteq> ''scale''" "type \<noteq> ''scaling''"
      "type \<noteq> ''shear''" "type \<noteq> ''shearing''"
      "type \<noteq> ''position''" "type \<noteq> ''x''" "type \<noteq> ''y''"
    by blast
  then show ?thesis
  proof cases
    case 1 then show ?thesis by (simp add: exits_ok_width)
  next
    case 2 then show ?thesis by (simp add: exits_ok_height)
  next
    case 3 then show ?thesis by (simp add: exits_ok_size)
  next
    case 4 then show ?thesis by (rule exits_ok_translate)
  next
    case 5 then show ?thesis by (rule exits_ok_rotate)
  next
    case 6 then show ?thesis by (rule exits_ok_scale)
  next
    case 7 then show ?thesis by (rule exits_ok_shear)
  next
    case 8 then show ?thesis by (simp add: exits_ok_position)
  next
    case 9 then show ?thesis by (rule exits_ok_xy)
  next
    case 10 then show ?thesis
      by (simp add: exits_ok_other exits_ok_def toggle_def)
  qed
qed

text \<open>
  C3, as the code has it. When \<open>transform\<close> returns, by its last line or by one of the
  early returns of the \<open>x\<close>, \<open>y\<close> and \<open>position\<close> writes, the preferences are
  \<open>adjustStrokeWeightWhenScaling = true\<close> and \<open>whenScaling = APPLY_TO_CONTENT\<close>. When
  it throws and the first argument is a page item, they are still \<open>false\<close> and
  \<open>ADJUST_SCALING_PERCENTAGE\<close>. When it throws and the first argument is not a page
  item, nothing was changed.
\<close>

theorem transform_preferences_on_exit:
  "(transform h env type value st0 = Returns r s \<longrightarrow>
      adjustStrokeWeightWhenScaling s \<and> whenScaling s = APPLY_TO_CONTENT)
   \<and> (transform h env type value st0 = Throws e s \<longrightarrow> isPageItem h (pItem st0) \<longrightarrow>
      \<not> adjustStrokeWeightWhenScaling s \<and> whenScaling s = ADJUST_SCALING_PERCENTAGE)
   \<and> (transform h env type value st0 = Throws e s \<longrightarrow> \<not> isPageItem h (pItem st0) \<longrightarrow>
      e = InvalidFirstParameter \<and> s = st0)"
  using transform_exits_ok [of h st0 env type "value"]
  by (auto simp add: exits_ok_def)

lemma transform_x_50:
  "transform rect_host rect_env ''x'' (Num 50)
     \<lparr>adjustStrokeWeightWhenScaling = True, whenScaling = APPLY_TO_CONTENT,
      pItem = rect 0 0 100 100\<rparr>
   = Returns (Num 50)
       \<lparr>adjustStrokeWeightWhenScaling = True, whenScaling = APPLY_TO_CONTENT,
        pItem = rect 50 0 100 100\<rparr>"
  by (simp add: transform.simps Let_def rect_host_def rect_env_def rect_def toggle_def
      finish_def host_transform_def anchorPosOnPage_def rect_resolve_def)

lemma transform_spin:
  "transform rect_host rect_env ''spin'' Undefined
     \<lparr>adjustStrokeWeightWhenScaling = True, whenScaling = APPLY_TO_CONTENT,
      pItem = rect 0 0 100 100\<rparr>
   = Throws InvalidTransformType
       \<lparr>adjustStrokeWeightWhenScaling = False, whenScaling = ADJUST_SCALING_PERCENTAGE,
        pItem = rect 0 0 100 100\<rparr>"
  by (simp add: transform.simps Let_def rect_host_def rect_def toggle_def)

lemma transform_no_item:
  "transform rect_host rect_env ''x'' Undefined
     \<lparr>adjustStrokeWeightWhenScaling = True, whenScaling = APPLY_TO_CONTENT,
      pItem = (rect 0 0 100 100)\<lparr>r_is_item := False\<rparr>\<rparr>
   = Throws InvalidFirstParameter
       \<lparr>adjustStrokeWeightWhenScaling = True, whenScaling = APPLY_TO_CONTENT,
        pItem = (rect 0 0 100 100)\<lparr>r_is_item := False\<rparr>\<rparr>"
  by (simp add: transform.simps rect_host_def rect_def)

theorem transform_preferences_on_exit_witness:
  "transform rect_host rect_env ''x'' (Num 50)
     \<lparr>adjustStrokeWeightWhenScaling = True, whenScaling = APPLY_TO_CONTENT,
      pItem = rect 0 0 100 100\<rparr>
   = Returns (Num 50)
       \<lparr>adjustStrokeWeightWhenScaling = True, whenScaling = APPLY_TO_CONTENT,
        pItem = rect 50 0 100 100\<rparr>
   \<and> isPageItem rect_host (rect 0 0 100 100)
   \<and> transform rect_host rect_env ''spin'' Undefined
       \<lparr>adjustStrokeWeightWhenScaling = True, whenScaling = APPLY_TO_CONTENT,
        pItem = rect 0 0 100 100\<rparr>
     = Throws InvalidTransformType
         \<lparr>adjustStrokeWeightWhenScaling = False, whenScaling = ADJUST_SCALING_PERCENTAGE,
          pItem = rect 0 0 100 100\<rparr>
   \<and> \<not> isPageItem rect_host ((rect 0 0 100 100)\<lparr>r_is_item := False\<rparr>)
   \<and> transform rect_host rect_env ''x'' Undefined
       \<lparr>adjustStrokeWeightWhenScaling = True, whenScaling = APPLY_TO_CONTENT,
        pItem = (rect 0 0 100 100)\<lparr>r_is_item := False\<rparr>\<rparr>
     = Throws InvalidFirstParameter
         \<lparr>adjustStrokeWeightWhenScaling = True, whenScaling = APPLY_TO_CONTENT,
          pItem = (rect 0 0 100 100)\<lparr>r_is_item := False\<rparr>\<rparr>"
proof -
  have item: "isPageItem rect_host (rect 0 0 100 100)"
    and no_item: "\<not> isPageItem rect_host ((rect 0 0 100 100)\<lparr>r_is_item := False\<rparr>)"
    by (simp_all add: rect_host_def rect_def)
  from transform_preferences_on_exit [of rect_host rect_env "''x''" "Num 50"
      "\<lparr>adjustStrokeWeightWhenScaling = True, whenScaling = APPLY_TO_CONTENT,
        pItem = rect 0 0 100 100\<rparr>" "Num 50"
      "\<lparr>adjustStrokeWeightWhenScaling = True, whenScaling = APPLY_TO_CONTENT,
        pItem = rect 50 0 100 100\<rparr>"]
    transform_preferences_on_exit [of rect_host rect_env "''spin''" Undefined
      "\<lparr>adjustStrokeWeightWhenScaling = True, whenScaling = APPLY_TO_CONTENT,
        pItem = rect 0 0 100 100\<rparr>" _
      "\<lparr>adjustStrokeWeightWhenScaling = False, whenScaling = ADJUST_SCALING_PERCENTAGE,
        pItem = rect 0 0 100 100\<rparr>" InvalidTransformType]
    transform_preferences_on_exit [of rect_host rect_env "''x''" Undefined
      "\<lparr>adjustStrokeWeightWhenScaling = True, whenScaling = APPLY_TO_CONTENT,
        pItem = (rect 0 0 100 100)\<lparr>r_is_item := False\<rparr>\<rparr>" _
      "\<lparr>adjustStrokeWeightWhenScaling = True, whenScaling = APPLY_TO_CONTENT,
        pItem = (rect 0 0 100 100)\<lparr>r_is_item := False\<rparr>\<rparr>" InvalidFirstParameter]
    transform_x_50 transform_spin transform_no_item item no_item
  show ?thesis by simp
qed

text \<open>
  C3, as the claim words it, fails: a call with a transform type that does not exist
  throws after the preferences were set to \<open>false\<close> and
  \<open>ADJUST_SCALING_PERCENTAGE\<close>, and leaves them so.
\<close>

theorem transform_invalid_type_counterexample:
  "transform rect_host rect_env ''spin'' Undefined
     \<lparr>adjustStrokeWeightWhenScaling = True, whenScaling = APPLY_TO_CONTENT,
      pItem = rect 0 0 100 100\<rparr>
   = Throws InvalidTransformType
       \<lparr>adjustStrokeWeightWhenScaling = False, whenScaling = ADJUST_SCALING_PERCENTAGE,
        pItem = rect 0 0 100 100\<rparr>"
  by (rule transform_spin)

lemma position_read_Returns:
  assumes "transform h env ''position'' Undefined s1 = Returns r s"
  shows "r = Arr (precision (fst (anchorPosOnPage h env (pItem s1))) 12)
               (precision (snd (anchorPosOnPage h env (pItem s1))) 12)
         \<and> pItem s = pItem s1"
  using assms
  by (subst (asm) transform.simps)
     (auto simp add: Let_def finish_def toggle_def split: if_splits)

lemma host_transform_Returns_u: "host_transform h a tm st = Returns u s \<Longrightarrow> u = ()"
  by simp

lemma write_echo_xy:
  assumes "transform h env type (Num v) st0 = Returns r s"
    and "type = ''x'' \<or> type = ''y''"
  shows "r = Num v"
  using assms(2) assms(1)
  by (elim disjE; clarify; subst (asm) transform.simps)
     (auto simp add: Let_def split: if_splits outcome.splits)

lemma write_echo_position:
  assumes "transform h env ''position'' (Arr a b) st0 = Returns r s"
  shows "r = Arr a b"
  using assms
  by (subst (asm) transform.simps)
     (auto simp add: Let_def split: if_splits outcome.splits)

lemma write_echo_width_height:
  assumes "transform h env type (Num v) st0 = Returns r s"
    and "type = ''width'' \<or> type = ''height''"
  shows "r = Num v"
  using assms(2) assms(1)
  by (elim disjE; clarify; subst (asm) transform.simps)
     (auto simp add: Let_def finish_def split: if_splits outcome.splits)

lemma write_echo_size:
  assumes "transform h env ''size'' (Arr a b) st0 = Returns r s"
  shows "r = Arr a b"
  using assms
  by (subst (asm) transform.simps)
     (auto simp add: Let_def finish_def split: if_splits outcome.splits)

lemma translate_Returns:
  assumes "transform h env type val st0 = Returns r s"
    and "type = ''translate'' \<or> type = ''translation''"
  shows "r = Arr (precision (fst (anchorPosOnPage h env (pItem s))) 12)
               (precision (snd (anchorPosOnPage h env (pItem s))) 12)"
  using assms(2) assms(1)
  by (elim disjE; clarify; subst (asm) transform.simps)
     (auto simp add: Let_def finish_def dest!: position_read_Returns
        split: if_splits outcome.splits)

lemma rotate_Returns:
  assumes "transform h env type val st0 = Returns r s"
    and "type = ''rotate'' \<or> type = ''rotation''"
  shows "r = Num (- rotationAngle h (pItem s))"
  using assms(2) assms(1)
  by (elim disjE; clarify; subst (asm) transform.simps)
     (auto simp add: Let_def finish_def split: if_splits outcome.splits)

lemma scale_Returns:
  assumes "transform h env type val st0 = Returns r s"
    and "type = ''scale'' \<or> type = ''scaling''"
  shows "r = Arr (horizontalScale h (pItem s) / 100) (verticalScale h (pItem s) / 100)"
  using assms(2) assms(1)
  by (elim disjE; clarify; subst (asm) transform.simps)
     (auto simp add: Let_def finish_def split: if_splits outcome.splits)

lemma shear_Returns:
  assumes "transform h env type val st0 = Returns r s"
    and "type = ''shear'' \<or> type = ''shearing''"
  shows "r = Num (- shearAngle h (pItem s))"
  using assms(2) assms(1)
  by (elim disjE; clarify; subst (asm) transform.simps)
     (auto simp add: Let_def finish_def split: if_splits outcome.splits)

lemmas rect_eval =
  transform.simps Let_def rect_host_def rect_env_def rect_def toggle_def finish_def
  host_transform_def anchorPosOnPage_def rect_resolve_def js_div_def precision_def

lemma transform_position_50_50:
  "transform rect_host rect_env ''position'' (Arr 50 50)
     \<lparr>adjustStrokeWeightWhenScaling = True, whenScaling = APPLY_TO_CONTENT,
      pItem = rect 0 0 100 100\<rparr>
   = Returns (Arr 50 50)
       \<lparr>adjustStrokeWeightWhenScaling = True, whenScaling = APPLY_TO_CONTENT,
        pItem = rect 50 50 100 100\<rparr>"
  by (simp add: rect_eval)

lemma transform_translate_5_5:
  "transform rect_host rect_env ''translate'' (Arr 5 5)
     \<lparr>adjustStrokeWeightWhenScaling = True, whenScaling = APPLY_TO_CONTENT,
      pItem = rect 10 20 100 100\<rparr>
   = Returns (Arr 15 25)
       \<lparr>adjustStrokeWeightWhenScaling = True, whenScaling = APPLY_TO_CONTENT,
        pItem = rect 15 25 100 100\<rparr>"
  by (simp add: rect_eval)

lemma transform_width_third:
  "transform rect_host rect_env ''width'' (Num (1 / 3))
     \<lparr>adjustStrokeWeightWhenScaling = True, whenScaling = APPLY_TO_CONTENT,
      pItem = rect 0 0 100 100\<rparr>
   = Returns (Num (1 / 3))
       \<lparr>adjustStrokeWeightWhenScaling = True, whenScaling = APPLY_TO_CONTENT,
        pItem = (rect 0 0 (1 / 3) 100)\<lparr>r_hscale := 1 / 3\<rparr>\<rparr>"
  by (simp add: rect_eval)

lemma transform_width_read_third:
  "transform rect_host rect_env ''width'' Undefined
     \<lparr>adjustStrokeWeightWhenScaling = True, whenScaling = APPLY_TO_CONTENT,
      pItem = (rect 0 0 (1 / 3) 100)\<lparr>r_hscale := 1 / 3\<rparr>\<rparr>
   = Returns (Num (333333333333 / 1000000000000))
       \<lparr>adjustStrokeWeightWhenScaling = True, whenScaling = APPLY_TO_CONTENT,
        pItem = (rect 0 0 (1 / 3) 100)\<lparr>r_hscale := 1 / 3\<rparr>\<rparr>"
  by (simp add: rect_eval round_def)

lemma transform_rotate_25:
  "transform rect_host rect_env ''rotate'' (Num 25)
     \<lparr>adjustStrokeWeightWhenScaling = True, whenScaling = APPLY_TO_CONTENT,
      pItem = rect 0 0 100 100\<rparr>
   = Returns (Num 25)
       \<lparr>adjustStrokeWeightWhenScaling = True, whenScaling = APPLY_TO_CONTENT,
        pItem = (rect 0 0 100 100)\<lparr>r_rotation := - 25\<rparr>\<rparr>"
  by (simp add: rect_eval)

lemma transform_scale_2:
  "transform rect_host rect_env ''scale'' (Num 2)
     \<lparr>adjustStrokeWeightWhenScaling = True, whenScaling = APPLY_TO_CONTENT,
      pItem = rect 0 0 100 100\<rparr>
   = Returns (Arr 2 2)
       \<lparr>adjustStrokeWeightWhenScaling = True, whenScaling = APPLY_TO_CONTENT,
        pItem = (rect 0 0 200 200)\<lparr>r_hscale := 200, r_vscale := 200\<rparr>\<rparr>"
  by (simp add: rect_eval)

lemma transform_shear_10:
  "transform rect_host rect_env ''shear'' (Num 10)
     \<lparr>adjustStrokeWeightWhenScaling = True, whenScaling = APPLY_TO_CONTENT,
      pItem = rect 0 0 100 100\<rparr>
   = Returns (Num 10)
       \<lparr>adjustStrokeWeightWhenScaling = True, whenScaling = APPLY_TO_CONTENT,
        pItem = (rect 0 0 100 100)\<lparr>r_shear := - 10\<rparr>\<rparr>"
  by (simp add: rect_eval)

text \<open>
  C4, as the code has it. When a call of \<open>transform\<close> returns:
  a write of \<open>x\<close>, \<open>y\<close>, \<open>width\<close> or \<open>height\<close> with a number, and a write of
  \<open>position\<close> or \<open>size\<close> with an array, return the value that was passed in;
  \<open>translate\<close> returns the position of the anchor point read from the item as the
  call leaves it, each coordinate rounded to 12 digits;
  \<open>rotate\<close>, \<open>scale\<close> and \<open>shear\<close> return what is read from the item as the call
  leaves it: minus its rotation angle, its two scale percentages over 100, minus its
  shear angle, none of them rounded.
\<close>

theorem transform_write_result:
  assumes "transform h env type value st0 = Returns r s"
  shows "((type = ''x'' \<or> type = ''y'' \<or> type = ''width'' \<or> type = ''height'')
            \<and> value = Num v \<longrightarrow> r = value)
     \<and> ((type = ''position'' \<or> type = ''size'') \<and> value = Arr a b \<longrightarrow> r = value)
     \<and> (type = ''translate'' \<or> type = ''translation'' \<longrightarrow>
          r = Arr (precision (fst (anchorPosOnPage h env (pItem s))) 12)
                  (precision (snd (anchorPosOnPage h env (pItem s))) 12))
     \<and> (type = ''rotate'' \<or> type = ''rotation'' \<longrightarrow> r = Num (- rotationAngle h (pItem s)))
     \<and> (type = ''scale'' \<or> type = ''scaling'' \<longrightarrow>
          r = Arr (horizontalScale h (pItem s) / 100) (verticalScale h (pItem s) / 100))
     \<and> (type = ''shear'' \<or> type = ''shearing'' \<longrightarrow> r = Num (- shearAngle h (pItem s)))"
proof (intro conjI impI)
  assume "(type = ''x'' \<or> type = ''y'' \<or> type = ''width'' \<or> type = ''height'') \<and> value = Num v"
  then have v: "value = Num v"
    and t: "(type = ''x'' \<or> type = ''y'') \<or> (type = ''width'' \<or> type = ''height'')"
    by blast+
  from t show "r = value"
  proof
    assume "type = ''x'' \<or> type = ''y''"
    with assms v show ?thesis by (simp add: write_echo_xy)
  next
    assume "type = ''width'' \<or> type = ''height''"
    with assms v show ?thesis by (simp add: write_echo_width_height)
  qed
next
  assume "(type = ''position'' \<or> type = ''size'') \<and> value = Arr a b"
  then have v: "value = Arr a b" and t: "type = ''position'' \<or> type = ''size''"
    by blast+
  from t show "r = value"
  proof
    assume "type = ''position''"
    with assms v show ?thesis by (simp add: write_echo_position)
  next
    assume "type = ''size''"
    with assms v show ?thesis by (simp add: write_echo_size)
  qed
next
  assume "type = ''translate'' \<or> type = ''translation''"
  with assms show "r = Arr (precision (fst (anchorPosOnPage h env (pItem s))) 12)
                          (precision (snd (anchorPosOnPage h env (pItem s))) 12)"
    by (rule translate_Returns)
next
  assume "type = ''rotate'' \<or> type = ''rotation''"
  with assms show "r = Num (- rotationAngle h (pItem s))"
    by (rule rotate_Returns)
next
  assume "type = ''scale'' \<or> type = ''scaling''"
  with assms show "r = Arr (horizontalScale h (pItem s) / 100) (verticalScale h (pItem s) / 100)"
    by (rule scale_Returns)
next
  assume "type = ''shear'' \<or> type = ''shearing''"
  with assms show "r = Num (- shearAngle h (pItem s))"
    by (rule shear_Returns)
qed

theorem transform_write_result_witness:
  "transform rect_host rect_env ''width'' (Num (1 / 3))
     \<lparr>adjustStrokeWeightWhenScaling = True, whenScaling = APPLY_TO_CONTENT,
      pItem = rect 0 0 100 100\<rparr>
   = Returns (Num (1 / 3))
       \<lparr>adjustStrokeWeightWhenScaling = True, whenScaling = APPLY_TO_CONTENT,
        pItem = (rect 0 0 (1 / 3) 100)\<lparr>r_hscale := 1 / 3\<rparr>\<rparr>
   \<and> transform rect_host rect_env ''position'' (Arr 50 50)
       \<lparr>adjustStrokeWeightWhenScaling = True, whenScaling = APPLY_TO_CONTENT,
        pItem = rect 0 0 100 100\<rparr>
     = Returns (Arr 50 50)
         \<lparr>adjustStrokeWeightWhenScaling = True, whenScaling = APPLY_TO_CONTENT,
          pItem = rect 50 50 100 100\<rparr>
   \<and> transform rect_host rect_env ''translate'' (Arr 5 5)
       \<lparr>adjustStrokeWeightWhenScaling = True, whenScaling = APPLY_TO_CONTENT,
        pItem = rect 10 20 100 100\<rparr>
     = Returns (Arr 15 25)
         \<lparr>adjustStrokeWeightWhenScaling = True, whenScaling = APPLY_TO_CONTENT,
          pItem = rect 15 25 100 100\<rparr>
   \<and> Arr 15 25 = Arr (precision (fst (anchorPosOnPage rect_host rect_env (rect 15 25 100 100))) 12)
                     (precision (snd (anchorPosOnPage rect_host rect_env (rect 15 25 100 100))) 12)
   \<and> transform rect_host rect_env ''rotate'' (Num 25)
       \<lparr>adjustStrokeWeightWhenScaling = True, whenScaling = APPLY_TO_CONTENT,
        pItem = rect 0 0 100 100\<rparr>
     = Returns (Num 25)
         \<lparr>adjustStrokeWeightWhenScaling = True, whenScaling = APPLY_TO_CONTENT,
          pItem = (rect 0 0 100 100)\<lparr>r_rotation := - 25\<rparr>\<rparr>
   \<and> Num 25 = Num (- rotationAngle rect_host ((rect 0 0 100 100)\<lparr>r_rotation := - 25\<rparr>))
   \<and> transform rect_host rect_env ''scale'' (Num 2)
       \<lparr>adjustStrokeWeightWhenScaling = True, whenScaling = APPLY_TO_CONTENT,
        pItem = rect 0 0 100 100\<rparr>
     = Returns (Arr 2 2)
         \<lparr>adjustStrokeWeightWhenScaling = True, whenScaling = APPLY_TO_CONTENT,
          pItem = (rect 0 0 200 200)\<lparr>r_hscale := 200, r_vscale := 200\<rparr>\<rparr>
   \<and> Arr 2 2
       = Arr (horizontalScale rect_host ((rect 0 0 200 200)\<lparr>r_hscale := 200, r_vscale := 200\<rparr>) / 100)
             (verticalScale rect_host ((rect 0 0 200 200)\<lparr>r_hscale := 200, r_vscale := 200\<rparr>) / 100)
   \<and> transform rect_host rect_env ''shear'' (Num 10)
       \<lparr>adjustStrokeWeightWhenScaling = True, whenScaling = APPLY_TO_CONTENT,
        pItem = rect 0 0 100 100\<rparr>
     = Returns (Num 10)
         \<lparr>adjustStrokeWeightWhenScaling = True, whenScaling = APPLY_TO_CONTENT,
          pItem = (rect 0 0 100 100)\<lparr>r_shear := - 10\<rparr>\<rparr>
   \<and> Num 10 = Num (- shearAngle rect_host ((rect 0 0 100 100)\<lparr>r_shear := - 10\<rparr>))"
  using transform_write_result [OF transform_width_third, of "1 / 3"]
    transform_write_result [OF transform_position_50_50, of _ 50 50]
    transform_write_result [OF transform_translate_5_5]
    transform_write_result [OF transform_rotate_25]
    transform_write_result [OF transform_scale_2]
    transform_write_result [OF transform_shear_10]
    transform_width_third transform_position_50_50 transform_translate_5_5
    transform_rotate_25 transform_scale_2 transform_shear_10
  by simp

lemma transform_rotate_third:
  "transform rect_host rect_env ''rotate'' (Num (1 / 3))
     \<lparr>adjustStrokeWeightWhenScaling = True, whenScaling = APPLY_TO_CONTENT,
      pItem = rect 0 0 100 100\<rparr>
   = Returns (Num (1 / 3))
       \<lparr>adjustStrokeWeightWhenScaling = True, whenScaling = APPLY_TO_CONTENT,
        pItem = (rect 0 0 100 100)\<lparr>r_rotation := - (1 / 3)\<rparr>\<rparr>"
  by (simp add: rect_eval)

lemma precision_third: "precision (1 / 3) 12 = 333333333333 / 1000000000000"
  by (simp add: precision_def round_def)

text \<open>
  C4, as the claim words it, fails in three ways. A \<open>translate\<close> by \<open>[5, 5]\<close> of a
  rectangle at \<open>(10, 20)\<close> returns the new position \<open>[15, 25]\<close>, not the \<open>[5, 5]\<close>
  passed in. A \<open>width\<close> write of a third returns the third itself, while the width that
  a read takes from the item afterwards, rounded to 12 digits, is \<open>0.333333333333\<close>.
  A \<open>rotate\<close> to a third of a degree returns the angle of the item as it is, a third,
  not its rounding to 12 digits.
\<close>

theorem transform_write_result_counterexample:
  "transform rect_host rect_env ''translate'' (Arr 5 5)
     \<lparr>adjustStrokeWeightWhenScaling = True, whenScaling = APPLY_TO_CONTENT,
      pItem = rect 10 20 100 100\<rparr>
   = Returns (Arr 15 25)
       \<lparr>adjustStrokeWeightWhenScaling = True, whenScaling = APPLY_TO_CONTENT,
        pItem = rect 15 25 100 100\<rparr>
   \<and> Arr 15 25 \<noteq> Arr 5 5
   \<and> transform rect_host rect_env ''width'' (Num (1 / 3))
       \<lparr>adjustStrokeWeightWhenScaling = True, whenScaling = APPLY_TO_CONTENT,
        pItem = rect 0 0 100 100\<rparr>
     = Returns (Num (1 / 3))
         \<lparr>adjustStrokeWeightWhenScaling = True, whenScaling = APPLY_TO_CONTENT,
          pItem = (rect 0 0 (1 / 3) 100)\<lparr>r_hscale := 1 / 3\<rparr>\<rparr>
   \<and> transform rect_host rect_env ''width'' Undefined
       \<lparr>adjustStrokeWeightWhenScaling = True, whenScaling = APPLY_TO_CONTENT,
        pItem = (rect 0 0 (1 / 3) 100)\<lparr>r_hscale := 1 / 3\<rparr>\<rparr>
     = Returns (Num (333333333333 / 1000000000000))
         \<lparr>adjustStrokeWeightWhenScaling = True, whenScaling = APPLY_TO_CONTENT,
          pItem = (rect 0 0 (1 / 3) 100)\<lparr>r_hscale := 1 / 3\<rparr>\<rparr>
   \<and> Num (1 / 3) \<noteq> Num (333333333333 / 1000000000000)
   \<and> transform rect_host rect_env ''rotate'' (Num (1 / 3))
       \<lparr>adjustStrokeWeightWhenScaling = True, whenScaling = APPLY_TO_CONTENT,
        pItem = rect 0 0 100 100\<rparr>
     = Returns (Num (1 / 3))
         \<lparr>adjustStrokeWeightWhenScaling = True, whenScaling = APPLY_TO_CONTENT,
          pItem = (rect 0 0 100 100)\<lparr>r_rotation := - (1 / 3)\<rparr>\<rparr>
   \<and> Num (1 / 3) \<noteq> Num (precision (1 / 3) 12)"
  using transform_translate_5_5 transform_width_third transform_width_read_third
    transform_rotate_third precision_third
  by simp

end
